theory Spec2Isabelle
  imports Complex_Main "HOL-Library.Word"
begin

unbundle bit_operations_syntax

section \<open>Process arguments: decoding the KERN\_PROCARGS2 buffer\<close>

text \<open>
  \<^verbatim>\<open>initprocesstree_sysdep\<close> allocates one buffer \<^verbatim>\<open>args = CALLOC(1, args_size + 1)\<close> and
  reuses it for every process: each \<^verbatim>\<open>sysctl(KERN_PROCARGS2)\<close> call overwrites a prefix of it
  and reports the number of bytes written in \<^verbatim>\<open>args_size\<close>. The buffer is a list of C
  \<^verbatim>\<open>char\<close>s; an index outside the list is outside the allocation, and a read there is
  undefined behaviour in C, which the model reports as the fault \<open>OutOfBounds\<close>.
\<close>

type_synonym buffer = "char list"

datatype fault = OutOfBounds

definition NUL :: char where
  "NUL = CHR 0x00"

text \<open>\<^verbatim>\<open>*p\<close>: one byte of the buffer.\<close>

definition peek :: "buffer \<Rightarrow> nat \<Rightarrow> fault + char" where
  "peek mem p = (if p < length mem then Inr (mem ! p) else Inl OutOfBounds)"

text \<open>
  The C string that starts at \<^verbatim>\<open>p\<close>, as \<^verbatim>\<open>strlen(p)\<close> and the \<^verbatim>\<open>%s\<close> conversion read it: the
  bytes before the first NUL at or after \<^verbatim>\<open>p\<close>. Both scan until they meet a NUL, whatever
  \<^verbatim>\<open>args_size\<close> is; with no NUL left in the allocation the scan leaves it.
\<close>

definition c_string :: "buffer \<Rightarrow> nat \<Rightarrow> fault + string" where
  "c_string mem p =
     (if NUL \<in> set (drop p mem) then Inr (takeWhile (\<lambda>c. c \<noteq> NUL) (drop p mem))
      else Inl OutOfBounds)"

definition strlen :: "buffer \<Rightarrow> nat \<Rightarrow> fault + nat" where
  "strlen mem p = (case c_string mem p of Inl e \<Rightarrow> Inl e | Inr s \<Rightarrow> Inr (length s))"

text \<open>
  \<^verbatim>\<open>int argc = *args;\<close> reads the first \<^verbatim>\<open>char\<close> of the buffer (\<^verbatim>\<open>args\<close> is a \<^verbatim>\<open>char *\<close>) and
  widens it to \<^verbatim>\<open>int\<close>; \<^verbatim>\<open>char\<close> is signed on Darwin.
\<close>

definition int_of_char :: "char \<Rightarrow> 32 word" where
  "int_of_char c = scast (of_char c :: 8 word)"

definition sizeof_int :: nat where
  "sizeof_int = 4"

text \<open>
  Lines 260 to 267:
  \<^verbatim>\<open>
  while (argc && p < args + args_size) {
          if (*p == 0) { p++; continue; }
          StringBuffer_append(cmdline, argc-- ? "%s " : "%s", p);
          p += strlen(p);
  }
  \<close>
  \<^verbatim>\<open>p\<close> is the offset into \<^verbatim>\<open>args\<close>, \<^verbatim>\<open>cmdline\<close> the contents of the string buffer.
\<close>

function argv_loop :: "buffer \<Rightarrow> nat \<Rightarrow> 32 word \<Rightarrow> nat \<Rightarrow> string \<Rightarrow> fault + string" where
  "argv_loop mem args_size argc p cmdline =
     (if argc \<noteq> 0 \<and> p < args_size then
        (case peek mem p of
           Inl e \<Rightarrow> Inl e
         | Inr c \<Rightarrow>
             if c = NUL then argv_loop mem args_size argc (p + 1) cmdline
             else (case c_string mem p of
                     Inl e \<Rightarrow> Inl e
                   | Inr s \<Rightarrow>
                       argv_loop mem args_size (argc - 1) (p + length s)
                         (cmdline @ (if argc \<noteq> 0 then s @ '' '' else s))))
      else Inr cmdline)"
  by pat_completeness auto
termination
proof (relation "measure (\<lambda>(mem, args_size, argc, p, cmdline). args_size - p)")
  show "wf (measure (\<lambda>(mem, args_size, argc, p, cmdline). args_size - p))"
    by simp
next
  fix mem :: buffer and args_size :: nat and argc :: "32 word" and p :: nat
    and cmdline :: string and c :: char
  assume "argc \<noteq> 0 \<and> p < args_size"
  then show "((mem, args_size, argc, p + 1, cmdline), (mem, args_size, argc, p, cmdline))
      \<in> measure (\<lambda>(mem, args_size, argc, p, cmdline). args_size - p)"
    by auto
next
  fix mem :: buffer and args_size :: nat and argc :: "32 word" and p :: nat
    and cmdline :: string and c :: char and s :: string
  assume run: "argc \<noteq> 0 \<and> p < args_size" and rd: "peek mem p = Inr c"
    and nz: "c \<noteq> NUL" and str: "c_string mem p = Inr s"
  from rd have inside: "p < length mem" and c: "c = mem ! p"
    by (auto simp: peek_def split: if_splits)
  from inside have "drop p mem = mem ! p # drop (Suc p) mem"
    by (simp add: Cons_nth_drop_Suc)
  with str nz c have "s \<noteq> []"
    by (auto simp: c_string_def split: if_splits)
  with run show "((mem, args_size, argc - 1, p + length s,
        cmdline @ (if argc \<noteq> 0 then s @ '' '' else s)), (mem, args_size, argc, p, cmdline))
      \<in> measure (\<lambda>(mem, args_size, argc, p, cmdline). args_size - p)"
    by (cases s) auto
qed

declare argv_loop.simps [simp del]

text \<open>
  Modelled from the spec: \<^verbatim>\<open>StringBuffer_trim\<close> belongs to the string library, which is
  not part of this file. The specification says that trailing and leading whitespace of
  the assembled string is trimmed; whitespace is what C's \<^verbatim>\<open>isspace\<close> accepts.
\<close>

definition isspace :: "char \<Rightarrow> bool" where
  "isspace c = (c = CHR '' '' \<or> (9 \<le> (of_char c :: nat) \<and> (of_char c :: nat) \<le> 13))"

definition StringBuffer_trim :: "string \<Rightarrow> string" where
  "StringBuffer_trim s = rev (dropWhile isspace (rev (dropWhile isspace s)))"

text \<open>
  Lines 256 to 267: the argument count, the start of the strings behind it, the skipped
  executable name and the loop. The result is the contents of the string buffer.
\<close>

definition procargs2_scan :: "buffer \<Rightarrow> nat \<Rightarrow> fault + string" where
  "procargs2_scan mem args_size =
     (case peek mem 0 of
        Inl e \<Rightarrow> Inl e
      | Inr c \<Rightarrow>
          (case strlen mem sizeof_int of
             Inl e \<Rightarrow> Inl e
           | Inr n \<Rightarrow> argv_loop mem args_size (int_of_char c) (sizeof_int + n) []))"

text \<open>
  Lines 268 and 269: \<^verbatim>\<open>pt[i].cmdline\<close> is assigned only when the string buffer is not empty,
  and then gets the trimmed contents. \<open>None\<close> is the NULL pointer.
\<close>

definition procargs2_cmdline :: "buffer \<Rightarrow> nat \<Rightarrow> string option \<Rightarrow> fault + string option" where
  "procargs2_cmdline mem args_size cmdline =
     (case procargs2_scan mem args_size of
        Inl e \<Rightarrow> Inl e
      | Inr sb \<Rightarrow> Inr (if length sb \<noteq> 0 then Some (StringBuffer_trim sb) else cmdline))"

section \<open>Per-process resource usage from Mach\<close>

text \<open>
  The Mach types follow the LP64 data model of the platform: \<^verbatim>\<open>integer_t\<close> and \<^verbatim>\<open>int\<close> are
  32 bits wide, \<^verbatim>\<open>natural_t\<close> and \<^verbatim>\<open>unsigned int\<close> are unsigned 32 bits, \<^verbatim>\<open>long\<close>,
  \<^verbatim>\<open>unsigned long\<close> and \<^verbatim>\<open>vm_size_t\<close> are 64 bits. A word holds the bit pattern; \<open>sint\<close> reads
  a signed one. Signed overflow, undefined in C, wraps here as it does on the hardware.
\<close>

type_synonym kern_return_t = int

definition KERN_SUCCESS :: kern_return_t where
  "KERN_SUCCESS = 0"

record time_value =
  seconds :: "32 word"
  microseconds :: "32 word"

record task_basic_info =
  resident_size :: "64 word"
  user_time :: time_value
  system_time :: time_value

record thread_basic_info =
  thread_user_time :: time_value
  thread_system_time :: time_value
  flags :: "32 word"

definition TH_FLAGS_IDLE :: "32 word" where
  "TH_FLAGS_IDLE = 0x2"

text \<open>C's \<^verbatim>\<open>/\<close> on \<^verbatim>\<open>int\<close>: the quotient is truncated towards zero.\<close>

definition int_div :: "32 word \<Rightarrow> 32 word \<Rightarrow> 32 word" where
  "int_div a b =
     (if (sint a < 0) = (sint b < 0) then word_of_int (\<bar>sint a\<bar> div \<bar>sint b\<bar>)
      else word_of_int (- (\<bar>sint a\<bar> div \<bar>sint b\<bar>)))"

text \<open>
  The expression of lines 298, 307, 329 and 338, computed in \<^verbatim>\<open>int\<close> and then widened:
  \<^verbatim>\<open>(long)((u.seconds + s.seconds) * 10 + (u.microseconds + s.microseconds) / 100000)\<close>
\<close>

definition cputime_of :: "time_value \<Rightarrow> time_value \<Rightarrow> 64 word" where
  "cputime_of u s =
     scast ((seconds u + seconds s) * 10 + int_div (microseconds u + microseconds s) 100000)"

text \<open>
  One entry of the process tree, with the fields this file writes. \<^verbatim>\<open>cmdline\<close> is a
  pointer: \<open>None\<close> is NULL. The tree is allocated with \<^verbatim>\<open>CALLOC\<close>, so every entry starts
  with all fields zero.
\<close>

record ProcessTree_T =
  pid :: int
  ppid :: int
  uid :: int
  euid :: int
  gid :: int
  starttime :: int
  cmdline :: "string option"
  zombie :: bool
  time :: real
  mem_kbyte :: "64 word"
  cputime :: "64 word"
  cpu_percent :: int

definition calloc_entry :: ProcessTree_T where
  "calloc_entry = \<lparr> pid = 0, ppid = 0, uid = 0, euid = 0, gid = 0, starttime = 0,
     cmdline = None, zombie = False, time = 0, mem_kbyte = 0, cputime = 0, cpu_percent = 0 \<rparr>"

text \<open>
  What the kernel answers for one task port: \<^verbatim>\<open>task_info\<close> (\<open>None\<close> when it does not
  return \<^verbatim>\<open>KERN_SUCCESS\<close>), and \<^verbatim>\<open>task_threads\<close> with, for every thread of the table, the
  answer of \<^verbatim>\<open>thread_info\<close>.
\<close>

record task_answers =
  task_info :: "task_basic_info option"
  task_threads :: "thread_basic_info option list option"

text \<open>The loop over the thread table, lines 303 to 312 and 334 to 343.\<close>

fun thread_loop :: "thread_basic_info option list \<Rightarrow> ProcessTree_T \<Rightarrow> ProcessTree_T" where
  "thread_loop [] pt = pt"
| "thread_loop (th # threadtable) pt =
     thread_loop threadtable
       (case th of
          None \<Rightarrow> pt
        | Some threadinfo \<Rightarrow>
            if flags threadinfo AND TH_FLAGS_IDLE = 0
            then pt\<lparr> cputime := cputime pt
                       + cputime_of (thread_user_time threadinfo) (thread_system_time threadinfo),
                     cpu_percent := 0 \<rparr>
            else pt)"

text \<open>
  The block guarded by \<^verbatim>\<open>task_for_pid(...) == KERN_SUCCESS\<close>. The source has it twice with
  the same statements, at lines 287 to 316 and at lines 318 to 347; the argument is the
  answer to that call's \<^verbatim>\<open>task_for_pid\<close>, \<open>None\<close> when it fails.
\<close>

definition task_block :: "task_answers option \<Rightarrow> ProcessTree_T \<Rightarrow> ProcessTree_T" where
  "task_block task pt =
     (case task of
        None \<Rightarrow> pt
      | Some answers \<Rightarrow>
          (let pt1 = (case task_info answers of
                        None \<Rightarrow> pt
                      | Some taskinfo \<Rightarrow>
                          pt\<lparr> mem_kbyte := resident_size taskinfo div 1024,
                              cputime := cputime_of (user_time taskinfo) (system_time taskinfo),
                              cpu_percent := 0 \<rparr>)
           in case task_threads answers of
                None \<Rightarrow> pt1
              | Some threadtable \<Rightarrow> thread_loop threadtable pt1))"

section \<open>The static variables of the file\<close>

text \<open>Lines 82 to 87. Each entry point takes the variables and returns them updated.\<close>

record statics =
  hz :: "32 word"
  pagesize_kbyte :: "32 word"
  total_old :: "64 word"
  cpu_user_old :: "64 word"
  cpu_syst_old :: "64 word"
  isSipEnabled :: bool

definition statics_at_start :: statics where
  "statics_at_start = \<lparr> hz = 0, pagesize_kbyte = 0, total_old = 0, cpu_user_old = 0,
     cpu_syst_old = 0, isSipEnabled = True \<rparr>"

section \<open>The process tree\<close>

text \<open>The fields of \<^verbatim>\<open>struct kinfo_proc\<close> that the loop reads.\<close>

record kinfo_proc =
  p_pid :: int
  e_ppid :: int
  p_ruid :: int
  cr_uid :: int
  p_rgid :: int
  p_starttime :: int
  p_comm :: string
  p_stat :: int

definition SZOMB :: int where
  "SZOMB = 5"

text \<open>
  What the system answers while the loop handles one process: its entry of the process
  table, the bytes that \<^verbatim>\<open>sysctl(KERN_PROCARGS2)\<close> delivers (\<open>None\<close> when it returns -1), the
  clock reading of \<^verbatim>\<open>get_float_time\<close>, and the answers to the \<^verbatim>\<open>task_for_pid\<close> call of line
  287 and to the one of line 318 (\<open>None\<close> when the call does not return \<^verbatim>\<open>KERN_SUCCESS\<close>).
\<close>

record proc_answers =
  pinfo :: kinfo_proc
  procargs2 :: "buffer option"
  float_time :: real
  task_for_pid_287 :: "task_answers option"
  task_for_pid_318 :: "task_answers option"

text \<open>
  \<^verbatim>\<open>sysctl(mib, 3, args, &args_size, NULL, 0)\<close>, with \<^verbatim>\<open>args_size\<close> reset to the saved value
  of \<^verbatim>\<open>KERN_ARGMAX\<close> on entry: the kernel overwrites the start of \<^verbatim>\<open>args\<close> and sets
  \<^verbatim>\<open>args_size\<close> to the number of bytes it wrote; the rest of the buffer keeps what earlier
  iterations left there. An answer that does not fit is an error, and a failed call
  leaves the buffer as it was.
\<close>

definition sysctl_procargs2 :: "buffer option \<Rightarrow> nat \<Rightarrow> buffer \<Rightarrow> (buffer \<times> nat) option" where
  "sysctl_procargs2 answer argmax args =
     (case answer of
        None \<Rightarrow> None
      | Some blob \<Rightarrow>
          if length blob \<le> argmax then Some (blob @ drop (length blob) args, length blob)
          else None)"

text \<open>The body of the loop of line 232, for one process.\<close>

definition tree_entry ::
  "bool \<Rightarrow> nat \<Rightarrow> buffer \<Rightarrow> proc_answers \<Rightarrow> fault + (buffer \<times> ProcessTree_T)" where
  "tree_entry sip argmax args a =
     (let pt0 = calloc_entry\<lparr> pid := p_pid (pinfo a), ppid := e_ppid (pinfo a),
                  uid := p_ruid (pinfo a), euid := cr_uid (pinfo a), gid := p_rgid (pinfo a),
                  starttime := p_starttime (pinfo a) \<rparr>;
          decoded = (case sysctl_procargs2 (procargs2 a) argmax args of
                       None \<Rightarrow> Inr (args, cmdline pt0)
                     | Some (args', args_size) \<Rightarrow>
                         (case procargs2_cmdline args' args_size (cmdline pt0) of
                            Inl e \<Rightarrow> Inl e
                          | Inr c \<Rightarrow> Inr (args', c)))
      in case decoded of
           Inl e \<Rightarrow> Inl e
         | Inr (args', c) \<Rightarrow>
             (let pt1 = pt0\<lparr> cmdline := c \<rparr>;
                  pt2 = (if cmdline pt1 = None \<or> cmdline pt1 = Some []
                         then pt1\<lparr> cmdline := Some (p_comm (pinfo a)) \<rparr> else pt1);
                  pt3 = (if p_stat (pinfo a) = SZOMB then pt2\<lparr> zombie := True \<rparr> else pt2);
                  pt4 = pt3\<lparr> time := float_time a \<rparr>;
                  pt5 = (if \<not> sip then task_block (task_for_pid_287 a) pt4 else pt4);
                  pt6 = task_block (task_for_pid_318 a) pt5
              in Inr (args', pt6)))"

fun tree_loop ::
  "bool \<Rightarrow> nat \<Rightarrow> buffer \<Rightarrow> proc_answers list \<Rightarrow> fault + ProcessTree_T list" where
  "tree_loop sip argmax args [] = Inr []"
| "tree_loop sip argmax args (a # rest) =
     (case tree_entry sip argmax args a of
        Inl e \<Rightarrow> Inl e
      | Inr (args', pt) \<Rightarrow>
          (case tree_loop sip argmax args' rest of
             Inl e \<Rightarrow> Inl e
           | Inr pts \<Rightarrow> Inr (pt # pts)))"

text \<open>
  The system calls of \<^verbatim>\<open>initprocesstree_sysdep\<close> outside the loop: the sizing call for the
  process table (does it succeed), the call that fills the table (\<open>None\<close> when it fails; each
  process comes with the answers the loop will get for it) and \<^verbatim>\<open>KERN_ARGMAX\<close>.
\<close>

record tree_answers =
  kern_proc_all_size :: bool
  kern_proc_all :: "proc_answers list option"
  kern_argmax :: "nat option"

text \<open>
  The result is the returned \<^verbatim>\<open>treesize\<close> and what \<^verbatim>\<open>*reference\<close> is set to, \<open>None\<close> when it
  is left alone.
\<close>

definition initprocesstree_sysdep ::
  "statics \<Rightarrow> tree_answers \<Rightarrow> fault + (int \<times> ProcessTree_T list option)" where
  "initprocesstree_sysdep g k =
     (if \<not> kern_proc_all_size k then Inr (0, None)
      else case kern_proc_all k of
             None \<Rightarrow> Inr (0, None)
           | Some pinfos \<Rightarrow>
               (case kern_argmax k of
                  None \<Rightarrow> Inr (0, None)
                | Some argmax \<Rightarrow>
                    (case tree_loop (isSipEnabled g) argmax (replicate (argmax + 1) NUL) pinfos of
                       Inl e \<Rightarrow> Inl e
                     | Inr pt \<Rightarrow> Inr (int (length pinfos), Some pt))))"

section \<open>The System Integrity Protection probe and initialisation\<close>

text \<open>
  What Mach answers to \<^verbatim>\<open>_isSipEnabled\<close>: the status of \<^verbatim>\<open>host_processor_set_priv\<close>, the
  status of \<^verbatim>\<open>processor_set_tasks\<close>, and for each task of the returned array the value that
  \<^verbatim>\<open>pid_for_task\<close> leaves in \<^verbatim>\<open>pid\<close>.
\<close>

record sip_answers =
  host_processor_set_priv :: kern_return_t
  processor_set_tasks :: kern_return_t
  tasks :: "int list"

text \<open>
  The loop of lines 119 to 126, on the variable \<^verbatim>\<open>isSipEnabled\<close>. The function
  \<^verbatim>\<open>_isSipEnabled\<close> is \<open>isSipEnabled_probe\<close> here: a name cannot start with an underscore.
\<close>

fun pid_loop :: "int list \<Rightarrow> statics \<Rightarrow> statics" where
  "pid_loop [] g = g"
| "pid_loop (task_pid # rest) g =
     pid_loop rest (if task_pid = 1 then g\<lparr> isSipEnabled := False \<rparr> else g)"

definition isSipEnabled_probe :: "sip_answers \<Rightarrow> statics \<Rightarrow> bool \<times> statics" where
  "isSipEnabled_probe k g =
     (let g1 = g\<lparr> isSipEnabled := True \<rparr>
      in if host_processor_set_priv k \<noteq> KERN_SUCCESS then (isSipEnabled g1, g1)
         else if processor_set_tasks k \<noteq> KERN_SUCCESS then (isSipEnabled g1, g1)
         else (let g2 = pid_loop (tasks k) g1 in (isSipEnabled g2, g2)))"

text \<open>
  The fields of \<^verbatim>\<open>SystemInfo_T\<close> that this file writes. The type is declared in a header
  outside this file; the memory sizes are \<^verbatim>\<open>unsigned long\<close>, the percentages \<^verbatim>\<open>int\<close>.
\<close>

record SystemInfo_T =
  cpus :: "32 word"
  mem_kbyte_max :: "64 word"
  total_mem_kbyte :: "64 word"
  swap_kbyte_max :: "64 word"
  total_swap_kbyte :: "64 word"
  total_cpu_user_percent :: int
  total_cpu_syst_percent :: int
  total_cpu_wait_percent :: int

text \<open>
  The four \<^verbatim>\<open>sysctl\<close> calls of \<^verbatim>\<open>init_process_info_sysdep\<close> (\<open>None\<close> when the call returns
  -1) and the answers for the probe. The state is the static variables and the global
  \<^verbatim>\<open>systeminfo\<close>.
\<close>

record init_answers =
  kern_clockrate :: "32 word option"
  hw_ncpu :: "32 word option"
  hw_memsize :: "64 word option"
  hw_pagesize :: "32 word option"
  sip_probe :: sip_answers

definition init_process_info_sysdep ::
  "init_answers \<Rightarrow> statics \<times> SystemInfo_T \<Rightarrow> bool \<times> statics \<times> SystemInfo_T" where
  "init_process_info_sysdep k st =
     (case st of (g, systeminfo) \<Rightarrow>
        (case kern_clockrate k of
           None \<Rightarrow> (False, g, systeminfo)
         | Some clock_hz \<Rightarrow>
             (let g1 = g\<lparr> hz := clock_hz \<rparr>
              in case hw_ncpu k of
                   None \<Rightarrow> (False, g1, systeminfo)
                 | Some ncpu \<Rightarrow>
                     (let si1 = systeminfo\<lparr> cpus := ncpu \<rparr>
                      in case hw_memsize k of
                           None \<Rightarrow> (False, g1, si1)
                         | Some memsize \<Rightarrow>
                             (let si2 = si1\<lparr> mem_kbyte_max := memsize div 1024 \<rparr>
                              in case hw_pagesize k of
                                   None \<Rightarrow> (False, g1, si2)
                                 | Some pagesize \<Rightarrow>
                                     (let g2 = g1\<lparr> pagesize_kbyte := int_div pagesize 1024 \<rparr>;
                                          probed = isSipEnabled_probe (sip_probe k) g2;
                                          g3 = (snd probed)\<lparr> isSipEnabled := fst probed \<rparr>
                                      in (True, g3, si2)))))))"

section \<open>System-wide memory and CPU usage\<close>

text \<open>
  \<^verbatim>\<open>(unsigned long)(double)(x)\<close> for a 64-bit unsigned \<^verbatim>\<open>x\<close>: the conversion to \<^verbatim>\<open>double\<close>
  keeps 53 significant bits and rounds to nearest, ties to even; below \<open>2 ^ 53\<close> it
  changes nothing. The conversion back to \<^verbatim>\<open>unsigned long\<close> is undefined in C when the
  \<^verbatim>\<open>double\<close> is \<open>2 ^ 64\<close>, which the largest 64-bit values round to; the conversion code of
  the platform yields 0 there. The division by \<^verbatim>\<open>1024.\<close> that follows is exact in
  \<^verbatim>\<open>double\<close>, and the assignment to the \<^verbatim>\<open>unsigned long\<close> field drops the fraction.
\<close>

fun bit_length :: "nat \<Rightarrow> nat" where
  "bit_length n = (if n = 0 then 0 else Suc (bit_length (n div 2)))"

declare bit_length.simps [simp del]

definition double_of_nat :: "nat \<Rightarrow> nat" where
  "double_of_nat n =
     (let e = bit_length n - 53; q = n div 2 ^ e; r = n mod 2 ^ e
      in if e = 0 then n
         else if 2 ^ e < 2 * r \<or> (2 ^ e = 2 * r \<and> odd q) then (q + 1) * 2 ^ e
         else q * 2 ^ e)"

definition unsigned_long_of_double :: "nat \<Rightarrow> 64 word" where
  "unsigned_long_of_double d = (if d < 2 ^ 64 then word_of_nat d else 0)"

definition kbyte_of_bytes :: "64 word \<Rightarrow> 64 word" where
  "kbyte_of_bytes x = unsigned_long_of_double (double_of_nat (unat x)) div 1024"

text \<open>
  What the system answers to \<^verbatim>\<open>used_system_memory_sysdep\<close>: the status of
  \<^verbatim>\<open>host_statistics(HOST_VM_INFO)\<close> with the two page counts it reads, and the
  \<^verbatim>\<open>xsu_total\<close> and \<^verbatim>\<open>xsu_used\<close> of \<^verbatim>\<open>sysctl(VM_SWAPUSAGE)\<close>, \<open>None\<close> when that returns -1.
\<close>

record memory_answers =
  vm_kret :: kern_return_t
  wire_count :: "32 word"
  active_count :: "32 word"
  vm_swapusage :: "(64 word \<times> 64 word) option"

definition used_system_memory_sysdep ::
  "memory_answers \<Rightarrow> statics \<Rightarrow> SystemInfo_T \<Rightarrow> bool \<times> SystemInfo_T" where
  "used_system_memory_sysdep k g si =
     (if vm_kret k \<noteq> KERN_SUCCESS then (False, si)
      else (let si1 = si\<lparr> total_mem_kbyte :=
                          ucast ((wire_count k + active_count k) * pagesize_kbyte g) \<rparr>
            in case vm_swapusage k of
                 None \<Rightarrow> (False, si1\<lparr> swap_kbyte_max := 0 \<rparr>)
               | Some (xsu_total, xsu_used) \<Rightarrow>
                   (True, si1\<lparr> swap_kbyte_max := kbyte_of_bytes xsu_total,
                               total_swap_kbyte := kbyte_of_bytes xsu_used \<rparr>)))"

text \<open>
  \<^verbatim>\<open>(int)(1000 * (double)(delta) / total)\<close> for \<^verbatim>\<open>long\<close> values with \<^verbatim>\<open>total > 0\<close>: the
  quotient, truncated towards zero by the cast. The tick counters are 32 bits wide and the
  accumulators hold earlier readings of them, so \<open>1000 * delta\<close> and \<open>total\<close> are integers
  far below \<open>2 ^ 53\<close>, both exact in \<^verbatim>\<open>double\<close>, and the rounded quotient of two such
  integers has the same integral part as the exact one. The cast of a \<^verbatim>\<open>double\<close> outside
  the range of \<^verbatim>\<open>int\<close> is undefined in C; the conversion instruction of the platform yields
  \<^verbatim>\<open>INT_MIN\<close> there.
\<close>

definition int_of_double :: "int \<Rightarrow> int" where
  "int_of_double q =
     (if - 2147483648 \<le> q \<and> q < 2147483648 then q else - 2147483648)"

definition permille :: "int \<Rightarrow> int \<Rightarrow> int" where
  "permille delta total_delta =
     int_of_double
       (if 0 \<le> delta then (1000 * delta) div total_delta
        else - ((1000 * (- delta)) div total_delta))"

definition CPU_STATE_USER :: nat where "CPU_STATE_USER = 0"
definition CPU_STATE_SYSTEM :: nat where "CPU_STATE_SYSTEM = 1"
definition CPU_STATE_MAX :: nat where "CPU_STATE_MAX = 4"

text \<open>
  What \<^verbatim>\<open>host_statistics(HOST_CPU_LOAD_INFO)\<close> answers: its status, and the contents of
  \<^verbatim>\<open>cpu_info.cpu_ticks\<close> after the call, an array of \<^verbatim>\<open>natural_t\<close> indexed by CPU state.
\<close>

record cpu_answers =
  cpu_kret :: kern_return_t
  cpu_ticks :: "nat \<Rightarrow> 32 word"

text \<open>The loop of lines 415 and 416: \<^verbatim>\<open>total_new += cpu_info.cpu_ticks[i]\<close> on a \<^verbatim>\<open>long\<close>.\<close>

definition sum_ticks :: "(nat \<Rightarrow> 32 word) \<Rightarrow> 64 word" where
  "sum_ticks ticks = fold (\<lambda>i total_new. total_new + ucast (ticks i)) [0..<CPU_STATE_MAX] 0"

definition SENTINEL :: int where
  "SENTINEL = - 10"

definition used_system_cpu_sysdep ::
  "cpu_answers \<Rightarrow> statics \<Rightarrow> SystemInfo_T \<Rightarrow> bool \<times> statics \<times> SystemInfo_T" where
  "used_system_cpu_sysdep k g si =
     (if cpu_kret k = KERN_SUCCESS then
        (let total_new = sum_ticks (cpu_ticks k);
             total = total_new - total_old g;
             g1 = g\<lparr> total_old := total_new \<rparr>;
             user = ucast (cpu_ticks k CPU_STATE_USER) :: 64 word;
             syst = ucast (cpu_ticks k CPU_STATE_SYSTEM) :: 64 word;
             si1 = si\<lparr> total_cpu_user_percent :=
                          (if 0 < sint total
                           then permille (sint (user - cpu_user_old g1)) (sint total)
                           else SENTINEL),
                        total_cpu_syst_percent :=
                          (if 0 < sint total
                           then permille (sint (syst - cpu_syst_old g1)) (sint total)
                           else SENTINEL),
                        total_cpu_wait_percent := 0 \<rparr>;
             g2 = g1\<lparr> cpu_user_old := user, cpu_syst_old := syst \<rparr>
         in (True, g2, si1))
      else (False, g, si))"

section \<open>Notions used in the statements\<close>

text \<open>
  A thread adds to \<^verbatim>\<open>cputime\<close> when \<^verbatim>\<open>thread_info\<close> succeeds for it and its flags do not have
  \<^verbatim>\<open>TH_FLAGS_IDLE\<close>; what it adds is the value of the expression of lines 307 and 338.
\<close>

fun counted :: "thread_basic_info option \<Rightarrow> bool" where
  "counted None = False"
| "counted (Some threadinfo) = (flags threadinfo AND TH_FLAGS_IDLE = 0)"

definition thread_cputime :: "thread_basic_info option \<Rightarrow> 64 word" where
  "thread_cputime th =
     (case th of
        None \<Rightarrow> 0
      | Some threadinfo \<Rightarrow>
          cputime_of (thread_user_time threadinfo) (thread_system_time threadinfo))"

text \<open>
  What lines 242 to 271 leave in \<^verbatim>\<open>pt[i].cmdline\<close>, for a buffer \<^verbatim>\<open>args\<close> as the earlier
  iterations left it: NULL when the \<^verbatim>\<open>sysctl\<close> fails or the string buffer stays empty.
\<close>

definition decoded_cmdline :: "nat \<Rightarrow> buffer \<Rightarrow> proc_answers \<Rightarrow> string option" where
  "decoded_cmdline argmax args a =
     (case sysctl_procargs2 (procargs2 a) argmax args of
        None \<Rightarrow> None
      | Some (args', args_size) \<Rightarrow>
          (case procargs2_cmdline args' args_size None of Inl e \<Rightarrow> None | Inr c \<Rightarrow> c))"

text \<open>
  The contents of \<^verbatim>\<open>args\<close> after the iteration for one process, and when the iteration
  for the process at index \<open>i\<close> begins: only a successful \<^verbatim>\<open>sysctl\<close> changes the buffer.
\<close>

definition args_after :: "nat \<Rightarrow> buffer \<Rightarrow> proc_answers \<Rightarrow> buffer" where
  "args_after argmax args a =
     (case sysctl_procargs2 (procargs2 a) argmax args of
        None \<Rightarrow> args
      | Some (args', args_size) \<Rightarrow> args')"

fun args_before :: "nat \<Rightarrow> buffer \<Rightarrow> proc_answers list \<Rightarrow> nat \<Rightarrow> buffer" where
  "args_before argmax args [] i = args"
| "args_before argmax args (a # rest) 0 = args"
| "args_before argmax args (a # rest) (Suc i) =
     args_before argmax (args_after argmax args a) rest i"

text \<open>The buffer of a snapshot when the iteration for the process at index \<open>i\<close> begins.\<close>

definition snapshot_args :: "nat \<Rightarrow> proc_answers list \<Rightarrow> nat \<Rightarrow> buffer" where
  "snapshot_args argmax pinfos i = args_before argmax (replicate (argmax + 1) NUL) pinfos i"

section \<open>Example inputs\<close>

text \<open>The argument block of the specification's example, 25 bytes long.\<close>

definition ls_blob :: buffer where
  "ls_blob = [CHR 0x02, CHR 0x00, CHR 0x00, CHR 0x00] @ ''/bin/ls''
     @ [CHR 0x00, CHR 0x00, CHR 0x00] @ ''-l'' @ [CHR 0x00] @ ''--color'' @ [CHR 0x00]"

text \<open>
  A task with 2048 bytes resident, 1.6 s user and 0.7 s system time, and three threads: a
  running one with 0.5 s, an idle one with 3 s, and one whose \<^verbatim>\<open>thread_info\<close> fails.
\<close>

definition ls_taskinfo :: task_basic_info where
  "ls_taskinfo =
     \<lparr> resident_size = 2048,
       user_time = \<lparr> seconds = 1, microseconds = 600000 \<rparr>,
       system_time = \<lparr> seconds = 0, microseconds = 700000 \<rparr> \<rparr>"

definition ls_threads :: "thread_basic_info option list" where
  "ls_threads =
     [Some \<lparr> thread_user_time = \<lparr> seconds = 0, microseconds = 500000 \<rparr>,
             thread_system_time = \<lparr> seconds = 0, microseconds = 0 \<rparr>, flags = 0 \<rparr>,
      Some \<lparr> thread_user_time = \<lparr> seconds = 3, microseconds = 0 \<rparr>,
             thread_system_time = \<lparr> seconds = 0, microseconds = 0 \<rparr>, flags = 2 \<rparr>,
      None]"

definition ls_task :: task_answers where
  "ls_task = \<lparr> task_info = Some ls_taskinfo, task_threads = Some ls_threads \<rparr>"

definition ls_proc :: proc_answers where
  "ls_proc =
     \<lparr> pinfo = \<lparr> p_pid = 42, e_ppid = 1, p_ruid = 501, cr_uid = 501, p_rgid = 20,
                 p_starttime = 1000, p_comm = ''ls'', p_stat = 2 \<rparr>,
       procargs2 = Some ls_blob, float_time = 0,
       task_for_pid_287 = Some ls_task, task_for_pid_318 = Some ls_task \<rparr>"

definition ls_system :: tree_answers where
  "ls_system =
     \<lparr> kern_proc_all_size = True, kern_proc_all = Some [ls_proc], kern_argmax = Some 64 \<rparr>"

text \<open>The entry that a snapshot of \<open>ls_system\<close> holds for the process.\<close>

definition ls_entry :: ProcessTree_T where
  "ls_entry =
     \<lparr> pid = 42, ppid = 1, uid = 501, euid = 501, gid = 20, starttime = 1000,
       cmdline = Some ''-l --color'', zombie = False, time = 0, mem_kbyte = 2,
       cputime = 28, cpu_percent = 0 \<rparr>"

text \<open>
  Two more argument blocks: one whose only argument is a blank, so that the string buffer
  holds blanks and is trimmed to the empty string, and one whose count is 0, so that the
  string buffer stays empty.
\<close>

definition blank_blob :: buffer where
  "blank_blob = [CHR 0x01, CHR 0x00, CHR 0x00, CHR 0x00] @ ''/bin/ls'' @ [CHR 0x00] @ '' ''
     @ [CHR 0x00]"

definition argc0_blob :: buffer where
  "argc0_blob = [CHR 0x00, CHR 0x00, CHR 0x00, CHR 0x00] @ ''/bin/ls'' @ [CHR 0x00] @ ''-l''
     @ [CHR 0x00]"

text \<open>
  The same process four times: with its arguments, with the arguments query failing, and
  with each of the two blocks above. \<open>ps_tree\<close> is the tree that a snapshot gives for them.
\<close>

definition ps_procs :: "proc_answers list" where
  "ps_procs =
     [ls_proc, ls_proc\<lparr> procargs2 := None \<rparr>, ls_proc\<lparr> procargs2 := Some blank_blob \<rparr>,
      ls_proc\<lparr> procargs2 := Some argc0_blob \<rparr>]"

definition ps_system :: tree_answers where
  "ps_system =
     \<lparr> kern_proc_all_size = True, kern_proc_all = Some ps_procs, kern_argmax = Some 64 \<rparr>"

definition ps_tree :: "ProcessTree_T list" where
  "ps_tree = [ls_entry, ls_entry\<lparr> cmdline := Some ''ls'' \<rparr>,
     ls_entry\<lparr> cmdline := Some ''ls'' \<rparr>, ls_entry\<lparr> cmdline := Some ''ls'' \<rparr>]"

text \<open>The static variables after a probe that found pid 1.\<close>

definition sip_off :: statics where
  "sip_off = statics_at_start\<lparr> isSipEnabled := False \<rparr>"

section \<open>Units of CPU time\<close>

text \<open>
  The time that a user and a system \<^verbatim>\<open>time_value\<close> make together, in microseconds, and the
  values the kernel delivers: microseconds below one second, seconds below \<open>10 ^ 8\<close> (some
  three years).
\<close>

definition usec_total :: "time_value \<Rightarrow> time_value \<Rightarrow> int" where
  "usec_total u s =
     1000000 * (sint (seconds u) + sint (seconds s))
       + (sint (microseconds u) + sint (microseconds s))"

definition plausible :: "time_value \<Rightarrow> bool" where
  "plausible t =
     (0 \<le> sint (seconds t) \<and> sint (seconds t) < 100000000 \<and>
      0 \<le> sint (microseconds t) \<and> sint (microseconds t) < 1000000)"

text \<open>
  The CPU time as the specification words it: the task's user and system time plus that
  of every thread that is not idle, in hundredths of a second.
\<close>

definition spec_centiseconds :: "time_value \<Rightarrow> time_value \<Rightarrow> int" where
  "spec_centiseconds u s = usec_total u s div 10000"

definition spec_cputime :: "task_basic_info \<Rightarrow> thread_basic_info option list \<Rightarrow> int" where
  "spec_cputime taskinfo threadtable =
     spec_centiseconds (user_time taskinfo) (system_time taskinfo) +
     sum_list (map (\<lambda>th. case th of
                            None \<Rightarrow> 0
                          | Some threadinfo \<Rightarrow>
                              spec_centiseconds (thread_user_time threadinfo)
                                (thread_system_time threadinfo))
                 (filter counted threadtable))"

text \<open>
  The answers to the \<^verbatim>\<open>sysctl\<close> calls and the probe of \<^verbatim>\<open>init_process_info_sysdep\<close> for a
  caller that is not root: \<^verbatim>\<open>host_processor_set_priv\<close> returns \<^verbatim>\<open>KERN_FAILURE\<close>, which is 5.
  \<open>restricted\<close> is the static variables after that initialisation.
\<close>

definition systeminfo_at_start :: SystemInfo_T where
  "systeminfo_at_start =
     \<lparr> cpus = 0, mem_kbyte_max = 0, total_mem_kbyte = 0, swap_kbyte_max = 0,
       total_swap_kbyte = 0, total_cpu_user_percent = 0, total_cpu_syst_percent = 0,
       total_cpu_wait_percent = 0 \<rparr>"

definition nonroot_init :: init_answers where
  "nonroot_init =
     \<lparr> kern_clockrate = Some 100, hw_ncpu = Some 4, hw_memsize = Some 8589934592,
       hw_pagesize = Some 4096,
       sip_probe = \<lparr> host_processor_set_priv = 5, processor_set_tasks = 0, tasks = [] \<rparr> \<rparr>"

definition restricted :: statics where
  "restricted =
     fst (snd (init_process_info_sysdep nonroot_init (statics_at_start, systeminfo_at_start)))"

section \<open>The argument buffer as allocated\<close>

text \<open>
  \<^verbatim>\<open>args = CALLOC(1, args_size + 1)\<close> with \<^verbatim>\<open>args_size\<close> the value of \<^verbatim>\<open>KERN_ARGMAX\<close>: the
  buffer has one byte more than any \<^verbatim>\<open>sysctl\<close> call may write, and that byte stays NUL.
\<close>

definition allocated :: "nat \<Rightarrow> buffer \<Rightarrow> bool" where
  "allocated argmax mem = (length mem = argmax + 1 \<and> mem ! argmax = NUL)"

text \<open>
  Two buffers of ten bytes that agree on their first eight: the count 1, the executable
  name \<^verbatim>\<open>x\<close>, and an argument that starts with \<^verbatim>\<open>ab\<close> at offset 6.
\<close>

definition stale_c :: buffer where
  "stale_c = [CHR 0x01, CHR 0x00, CHR 0x00, CHR 0x00] @ ''x'' @ [CHR 0x00] @ ''abc''
     @ [CHR 0x00]"

definition stale_d :: buffer where
  "stale_d = [CHR 0x01, CHR 0x00, CHR 0x00, CHR 0x00] @ ''x'' @ [CHR 0x00] @ ''abd''
     @ [CHR 0x00]"

text \<open>
  The probe's answers for root without System Integrity Protection: both calls succeed and
  the task of pid 1 is in the array. \<open>root_init\<close> is an initialisation with these answers.
\<close>

definition root_probe :: sip_answers where
  "root_probe =
     \<lparr> host_processor_set_priv = 0, processor_set_tasks = 0, tasks = [0, 1, 42] \<rparr>"

definition root_init :: init_answers where
  "root_init = nonroot_init\<lparr> sip_probe := root_probe \<rparr>"

section \<open>Example samples\<close>

text \<open>
  Tick counters of a host: 250 user, 150 system, 600 idle and no nice ticks since boot. The
  first sample reads them; the failed sample is a call of \<^verbatim>\<open>host_statistics\<close> that returns
  \<^verbatim>\<open>KERN_FAILURE\<close> with the same contents in \<^verbatim>\<open>cpu_info\<close>.
\<close>

definition busy_ticks :: "nat \<Rightarrow> 32 word" where
  "busy_ticks i = (if i = 0 then 250 else if i = 1 then 150 else if i = 2 then 600 else 0)"

definition first_sample :: cpu_answers where
  "first_sample = \<lparr> cpu_kret = 0, cpu_ticks = busy_ticks \<rparr>"

definition failed_sample :: cpu_answers where
  "failed_sample = \<lparr> cpu_kret = 5, cpu_ticks = busy_ticks \<rparr>"

text \<open>
  Memory statistics with 1000 wired and 2000 active pages while the swap query fails, and
  a \<^verbatim>\<open>SystemInfo_T\<close> that an earlier sample left with 1024 KB of swap, 77 of them used.
\<close>

definition swapless :: memory_answers where
  "swapless =
     \<lparr> vm_kret = 0, wire_count = 1000, active_count = 2000, vm_swapusage = None \<rparr>"

definition swapped :: SystemInfo_T where
  "swapped = systeminfo_at_start\<lparr> swap_kbyte_max := 1024, total_swap_kbyte := 77 \<rparr>"

text \<open>The sum of the tick counters of all CPU states, as a number.\<close>

definition ticks_since_boot :: "(nat \<Rightarrow> 32 word) \<Rightarrow> int" where
  "ticks_since_boot ticks = (\<Sum>i \<leftarrow> [0..<CPU_STATE_MAX]. uint (ticks i))"

section \<open>Lemmas on the loops\<close>

lemma thread_loop_cputime:
  "cputime (thread_loop ths pt) = cputime pt + sum_list (map thread_cputime (filter counted ths))"
  by (induction ths arbitrary: pt) (auto simp: thread_cputime_def split: option.splits)

lemma thread_loop_other:
  "mem_kbyte (thread_loop ths pt) = mem_kbyte pt"
  "cmdline (thread_loop ths pt) = cmdline pt"
  by (induction ths arbitrary: pt) (auto split: option.splits)

lemma task_block_cmdline: "cmdline (task_block task pt) = cmdline pt"
  by (auto simp: task_block_def Let_def thread_loop_other split: option.splits)

lemma task_block_assigns:
  assumes "task_info t = Some ti"
  shows "mem_kbyte (task_block (Some t) pt) = resident_size ti div 1024"
    and "cputime (task_block (Some t) pt) =
      cputime_of (user_time ti) (system_time ti) +
        (case task_threads t of
           None \<Rightarrow> 0
         | Some ths \<Rightarrow> sum_list (map thread_cputime (filter counted ths)))"
  using assms
  by (auto simp: task_block_def Let_def thread_loop_other thread_loop_cputime
      split: option.splits)

lemma tree_entry_args:
  "tree_entry sip argmax args a = Inr (args', pt) \<Longrightarrow> args' = args_after argmax args a"
  by (auto simp: tree_entry_def Let_def args_after_def
      split: option.splits sum.splits prod.splits)

text \<open>Every entry of the tree is the result of the loop body on the process at its index.\<close>

lemma tree_loop_entries:
  "tree_loop sip argmax args pinfos = Inr pts \<Longrightarrow>
     length pts = length pinfos \<and>
     (\<forall>i < length pinfos.
        \<exists>mem'. tree_entry sip argmax (args_before argmax args pinfos i) (pinfos ! i)
                 = Inr (mem', pts ! i))"
proof (induction pinfos arbitrary: args pts)
  case Nil
  then show ?case by simp
next
  case (Cons a pinfos)
  from Cons.prems obtain args' pt rest where
    e: "tree_entry sip argmax args a = Inr (args', pt)" and
    r: "tree_loop sip argmax args' pinfos = Inr rest" and p: "pts = pt # rest"
    by (auto split: sum.splits prod.splits)
  from e have a': "args' = args_after argmax args a"
    by (rule tree_entry_args)
  from Cons.IH [OF r] have len: "length rest = length pinfos"
    and ih: "\<And>i. i < length pinfos \<Longrightarrow>
      \<exists>mem'. tree_entry sip argmax (args_before argmax args' pinfos i) (pinfos ! i)
               = Inr (mem', rest ! i)"
    by auto
  show ?case
  proof (intro conjI allI impI)
    show "length pts = length (a # pinfos)" using len p by simp
  next
    fix i assume "i < length (a # pinfos)"
    then show "\<exists>mem'. tree_entry sip argmax (args_before argmax args (a # pinfos) i)
        ((a # pinfos) ! i) = Inr (mem', pts ! i)"
      using e ih p a' by (cases i) auto
  qed
qed

lemma snapshot_entries:
  assumes "initprocesstree_sysdep g k = Inr (n, Some pt)" and "kern_proc_all k = Some pinfos"
    and "i < length pinfos"
  shows "length pt = length pinfos"
    and "\<exists>argmax mem'. kern_argmax k = Some argmax \<and>
           tree_entry (isSipEnabled g) argmax (snapshot_args argmax pinfos i) (pinfos ! i)
             = Inr (mem', pt ! i)"
proof -
  from assms(1,2) obtain argmax where am: "kern_argmax k = Some argmax"
    and loop: "tree_loop (isSipEnabled g) argmax (replicate (argmax + 1) NUL) pinfos = Inr pt"
    by (auto simp: initprocesstree_sysdep_def split: if_splits option.splits sum.splits)
  from tree_loop_entries [OF loop] assms(3) am
  show "length pt = length pinfos"
    and "\<exists>argmax mem'. kern_argmax k = Some argmax \<and>
           tree_entry (isSipEnabled g) argmax (snapshot_args argmax pinfos i) (pinfos ! i)
             = Inr (mem', pt ! i)"
    by (auto simp: snapshot_args_def)
qed

text \<open>
  The entry is the block of line 318 applied to what the block of line 286 leaves, and
  that one starts from an entry with no memory, no CPU time and the command line of lines
  242 to 275.
\<close>

lemma tree_entry_shape:
  assumes "tree_entry sip argmax args a = Inr (args', pt)"
  shows "\<exists>base. pt = task_block (task_for_pid_318 a)
                     (if \<not> sip then task_block (task_for_pid_287 a) base else base) \<and>
           mem_kbyte base = 0 \<and> cputime base = 0 \<and>
           cmdline base =
             (if decoded_cmdline argmax args a = None \<or> decoded_cmdline argmax args a = Some []
              then Some (p_comm (pinfo a)) else decoded_cmdline argmax args a)"
  using assms
  by (auto simp: tree_entry_def Let_def calloc_entry_def decoded_cmdline_def
      split: option.splits sum.splits prod.splits if_splits)

lemma ls_snapshot_sip_off:
  "initprocesstree_sysdep sip_off ls_system = Inr (1, Some [ls_entry])"
  by code_simp

lemma ps_snapshot:
  "initprocesstree_sysdep sip_off ps_system = Inr (4, Some ps_tree)"
  by code_simp

lemma ps_decoded:
  "decoded_cmdline 64 (snapshot_args 64 ps_procs 2) (ps_procs ! 2) = Some []"
  "decoded_cmdline 64 (snapshot_args 64 ps_procs 3) (ps_procs ! 3) = None"
  by code_simp+

lemma ls_system_simps:
  "kern_proc_all ls_system = Some [ls_proc]" "kern_argmax ls_system = Some 64"
  "task_for_pid_318 ls_proc = Some ls_task"
  by (simp_all add: ls_system_def ls_proc_def)

section \<open>The example of the argument block\<close>

text \<open>
  C8. The block \<^verbatim>\<open>"\x02\x00\x00\x00/bin/ls\0\0\0-l\0--color\0"\<close>, whose first byte gives the
  argument count 2, decodes to the command line \<^verbatim>\<open>"-l --color"\<close>: the executable path and
  the NUL padding are skipped, the two arguments are joined by one space and the result is
  trimmed. This holds whatever follows the 25 bytes of the block in the buffer and
  whatever \<^verbatim>\<open>cmdline\<close> held before.
\<close>

theorem ls_blob_decodes:
  "length ls_blob = 25 \<and>
   procargs2_cmdline (ls_blob @ rest) (length ls_blob) c = Inr (Some ''-l --color'')"
  by (simp add: ls_blob_def procargs2_cmdline_def procargs2_scan_def peek_def strlen_def
      c_string_def NUL_def sizeof_int_def int_of_char_def argv_loop.simps StringBuffer_trim_def
      isspace_def nth_append)

theorem ls_blob_decodes_witness:
  "procargs2_cmdline ls_blob 25 None = Inr (Some ''-l --color'')"
  using ls_blob_decodes [of "[]" None] by auto

section \<open>The two blocks that read a task\<close>



section \<open>CPU time of a process\<close>

lemma sint_small:
  "- (2 ^ 31) \<le> i \<Longrightarrow> i < 2 ^ 31 \<Longrightarrow> sint (word_of_int i :: 32 word) = i"
  by (simp add: sint_sbintrunc' signed_take_bit_int_eq_self)

lemma sint_long_of_int: "sint (scast (w :: 32 word) :: 64 word) = sint w"
  by (rule sint_up_scast) (simp add: is_up)

lemma cputime_of_tenths:
  assumes "plausible u" "plausible s"
  shows "sint (cputime_of u s) = usec_total u s div 100000"
proof -
  let ?S = "sint (seconds u) + sint (seconds s)"
  let ?U = "sint (microseconds u) + sint (microseconds s)"
  let ?V = "?S * 10 + ?U div 100000"
  from assms have S: "0 \<le> ?S" "?S < 200000000" and U: "0 \<le> ?U" "?U < 2000000"
    by (auto simp: plausible_def)
  have usum: "microseconds u + microseconds s = word_of_int ?U"
    by simp
  have u1: "sint (microseconds u + microseconds s) = ?U"
    unfolding usum using U by (intro sint_small) auto
  have k: "sint (100000 :: 32 word) = 100000"
    by simp
  have d: "int_div (microseconds u + microseconds s) 100000 = word_of_int (?U div 100000)"
    using U unfolding int_div_def u1 k by simp
  have dq: "0 \<le> ?U div 100000" "?U div 100000 < 20"
    using U by auto
  have w: "(seconds u + seconds s) * 10 + int_div (microseconds u + microseconds s) 100000
      = word_of_int ?V"
    unfolding d by simp
  have lo: "- (2 ^ 31) \<le> ?V" and hi: "?V < 2 ^ 31"
    using S dq by auto
  have v: "sint ((seconds u + seconds s) * 10
      + int_div (microseconds u + microseconds s) 100000) = ?V"
    unfolding w by (rule sint_small [OF lo hi])
  have "sint (cputime_of u s) = ?V"
    unfolding cputime_of_def by (simp only: sint_long_of_int v)
  also have "\<dots> = (?U + (?S * 10) * 100000) div 100000"
    by (simp only: div_mult_self1)
  also have "?U + (?S * 10) * 100000 = usec_total u s"
    unfolding usec_total_def by simp
  finally show ?thesis .
qed

text \<open>
  C3, as amended. For a process in a snapshot for which \<^verbatim>\<open>task_for_pid\<close> of line 318,
  \<^verbatim>\<open>task_info\<close> and \<^verbatim>\<open>task_threads\<close> succeed, \<^verbatim>\<open>cputime\<close> is the task's own user plus system
  time, plus the user plus system time of each of its threads for which \<^verbatim>\<open>thread_info\<close>
  succeeds and that is not flagged idle. Each of these times is counted in tenths of a
  second, rounded down: the total of microseconds divided by 100000.
\<close>

theorem cputime_in_tenths_of_task_and_threads:
  assumes "initprocesstree_sysdep g k = Inr (n, Some pt)" and "kern_proc_all k = Some pinfos"
    and "i < length pinfos"
    and "task_for_pid_318 (pinfos ! i) = Some t" and "task_info t = Some taskinfo"
    and "task_threads t = Some threadtable"
  shows "cputime (pt ! i) =
           cputime_of (user_time taskinfo) (system_time taskinfo)
             + sum_list (map thread_cputime (filter counted threadtable)) \<and>
         (\<forall>u s. plausible u \<and> plausible s \<longrightarrow>
            sint (cputime_of u s) = usec_total u s div 100000)"
proof -
  from snapshot_entries(2) [OF assms(1,2,3)] obtain argmax mem' where
    "tree_entry (isSipEnabled g) argmax (snapshot_args argmax pinfos i) (pinfos ! i)
       = Inr (mem', pt ! i)"
    by auto
  from tree_entry_shape [OF this] assms(4) obtain earlier where
    pt: "pt ! i = task_block (Some t) earlier"
    by auto
  have "cputime (pt ! i) =
      cputime_of (user_time taskinfo) (system_time taskinfo)
        + sum_list (map thread_cputime (filter counted threadtable))"
    unfolding pt by (simp add: task_block_assigns(2) [OF assms(5)] assms(6))
  then show ?thesis
    by (simp add: cputime_of_tenths)
qed

theorem cputime_in_tenths_of_task_and_threads_witness:
  "initprocesstree_sysdep sip_off ls_system = Inr (1, Some [ls_entry]) \<and>
   task_for_pid_318 ls_proc = Some ls_task \<and> task_info ls_task = Some ls_taskinfo \<and>
   task_threads ls_task = Some ls_threads \<and>
   cputime ls_entry = 23 + 5 \<and>
   plausible (user_time ls_taskinfo) \<and> plausible (system_time ls_taskinfo) \<and>
   sint (cputime_of (user_time ls_taskinfo) (system_time ls_taskinfo)) = 2300000 div 100000"
proof -
  have i: "0 < length [ls_proc]"
    by simp
  have t: "task_for_pid_318 ([ls_proc] ! 0) = Some ls_task"
    by (simp add: ls_proc_def)
  have ti: "task_info ls_task = Some ls_taskinfo" and th: "task_threads ls_task = Some ls_threads"
    by (simp_all add: ls_task_def)
  have pl: "plausible (user_time ls_taskinfo)" "plausible (system_time ls_taskinfo)"
    by (simp_all add: plausible_def ls_taskinfo_def)
  have us: "usec_total (user_time ls_taskinfo) (system_time ls_taskinfo) = 2300000"
    by (simp add: usec_total_def ls_taskinfo_def)
  have task: "cputime_of (user_time ls_taskinfo) (system_time ls_taskinfo) = 23"
    by code_simp
  have threads: "sum_list (map thread_cputime (filter counted ls_threads)) = 5"
    by code_simp
  from cputime_in_tenths_of_task_and_threads
    [OF ls_snapshot_sip_off ls_system_simps(1) i t ti th] pl us task threads
  show ?thesis
    by (simp add: ls_snapshot_sip_off ls_system_simps(3) ti th)
qed

text \<open>
  C3, as stated, fails: for the example process the entry holds 28, which is 2.8 s in
  tenths of a second, where hundredths of a second would be 280.
\<close>

theorem cputime_not_in_hundredths:
  "initprocesstree_sysdep sip_off ls_system = Inr (1, Some [ls_entry]) \<and>
   task_for_pid_318 ls_proc = Some ls_task \<and> task_info ls_task = Some ls_taskinfo \<and>
   task_threads ls_task = Some ls_threads \<and>
   sint (cputime ls_entry) = 28 \<and> spec_cputime ls_taskinfo ls_threads = 280"
proof -
  have "spec_cputime ls_taskinfo ls_threads = 280"
    by code_simp
  then show ?thesis
    by (simp add: ls_snapshot_sip_off ls_system_simps(3) ls_task_def ls_entry_def)
qed

section \<open>Snapshots under System Integrity Protection\<close>

text \<open>
  C1 says that with \<^verbatim>\<open>isSipEnabled\<close> set every entry of a snapshot has \<^verbatim>\<open>mem_kbyte\<close> and
  \<^verbatim>\<open>cputime\<close> zero. The block of line 318 is not guarded by the flag: after an
  initialisation that leaves the flag set, a process whose task can be opened gets both
  fields filled in.
\<close>

theorem restricted_snapshot_reads_task:
  "fst (init_process_info_sysdep nonroot_init (statics_at_start, systeminfo_at_start)) \<and>
   isSipEnabled restricted \<and>
   initprocesstree_sysdep restricted ls_system = Inr (1, Some [ls_entry]) \<and>
   mem_kbyte ls_entry = 2 \<and> cputime ls_entry = 28"
proof -
  have init: "fst (init_process_info_sysdep nonroot_init (statics_at_start, systeminfo_at_start))"
    by code_simp
  have flag: "isSipEnabled restricted"
    by code_simp
  have snap: "initprocesstree_sysdep restricted ls_system = Inr (1, Some [ls_entry])"
    by code_simp
  from init flag snap show ?thesis
    by (simp add: ls_entry_def)
qed

section \<open>Reads of the decoder\<close>

lemma takeWhile_stops:
  assumes "i < length xs" and "\<not> P (xs ! i)"
  shows "length (takeWhile P xs) \<le> i"
proof (rule ccontr)
  assume "\<not> length (takeWhile P xs) \<le> i"
  then have l: "i < length (takeWhile P xs)" by simp
  then have "takeWhile P xs ! i \<in> set (takeWhile P xs)" by simp
  then have "P (takeWhile P xs ! i)" by (rule set_takeWhileD [THEN conjunct2])
  with l assms(2) show False by (simp add: takeWhile_nth)
qed

lemma c_string_allocated:
  assumes "allocated argmax mem" and "p \<le> argmax"
  shows "\<exists>s. c_string mem p = Inr s \<and> p + length s \<le> argmax"
proof -
  from assms have len: "argmax - p < length (drop p mem)" and nul: "drop p mem ! (argmax - p) = NUL"
    by (auto simp: allocated_def)
  from len nul have "NUL \<in> set (drop p mem)"
    by (metis nth_mem)
  moreover from len nul have "length (takeWhile (\<lambda>c. c \<noteq> NUL) (drop p mem)) \<le> argmax - p"
    by (intro takeWhile_stops) auto
  ultimately show ?thesis
    using assms(2) by (auto simp: c_string_def)
qed

lemma argv_loop_allocated:
  assumes "allocated argmax mem" and "args_size \<le> argmax"
  shows "\<exists>r. argv_loop mem args_size argc p sb = Inr r"
  using assms
proof (induction mem args_size argc p sb rule: argv_loop.induct)
  case (1 mem args_size argc p sb)
  show ?case
  proof (cases "argc \<noteq> 0 \<and> p < args_size")
    case False
    then show ?thesis by (subst argv_loop.simps) auto
  next
    case True
    with "1.prems" have inside: "p < length mem" and le: "p \<le> argmax"
      by (auto simp: allocated_def)
    then have pk: "peek mem p = Inr (mem ! p)"
      by (simp add: peek_def)
    show ?thesis
    proof (cases "mem ! p = NUL")
      case nul: True
      from "1.IH"(1) [OF True pk nul "1.prems"] True pk nul show ?thesis
        by (subst argv_loop.simps) simp
    next
      case nz: False
      from c_string_allocated [OF "1.prems"(1) le] obtain s where s: "c_string mem p = Inr s"
        by blast
      from "1.IH"(2) [OF True pk nz s "1.prems"] True pk nz s show ?thesis
        by (subst argv_loop.simps) simp
    qed
  qed
qed

lemma procargs2_cmdline_allocated:
  assumes "allocated argmax mem" and "sizeof_int \<le> argmax" and "args_size \<le> argmax"
  shows "\<exists>r. procargs2_cmdline mem args_size c = Inr r"
proof -
  from assms(1) have "peek mem 0 = Inr (mem ! 0)"
    by (simp add: peek_def allocated_def)
  moreover from c_string_allocated [OF assms(1,2)] obtain s where
    "c_string mem sizeof_int = Inr s"
    by blast
  moreover from argv_loop_allocated [OF assms(1,3)] obtain r where
    "argv_loop mem args_size (int_of_char (mem ! 0)) (sizeof_int + length s) [] = Inr r"
    by blast
  ultimately show ?thesis
    by (simp add: procargs2_cmdline_def procargs2_scan_def strlen_def)
qed

text \<open>
  C7, as amended. The decoder is a function of the contents of the allocated buffer, the
  length \<^verbatim>\<open>args_size\<close> that the \<^verbatim>\<open>sysctl\<close> call reported and the leading count. On a buffer
  as allocated, of \<^verbatim>\<open>KERN_ARGMAX + 1\<close> bytes with the last one NUL and room for the count, and
  for any reported length up to \<^verbatim>\<open>KERN_ARGMAX\<close>, it returns a result: the loop ends and no
  read leaves the allocation, whatever the bytes are.
\<close>

theorem decoder_stays_in_buffer:
  assumes "allocated argmax mem" and "sizeof_int \<le> argmax" and "args_size \<le> argmax"
  shows "\<exists>r. procargs2_cmdline mem args_size c = Inr r"
  using assms by (rule procargs2_cmdline_allocated)

theorem decoder_stays_in_buffer_witness:
  "allocated 9 stale_c \<and> sizeof_int \<le> 9 \<and> (8::nat) \<le> 9 \<and>
   procargs2_cmdline stale_c 8 None = Inr (Some ''abc'')"
proof -
  have a: "allocated 9 stale_c" by (simp add: allocated_def stale_c_def NUL_def)
  have b: "sizeof_int \<le> 9" by (simp add: sizeof_int_def)
  have c: "(8::nat) \<le> 9" by simp
  have d: "procargs2_cmdline stale_c 8 None = Inr (Some ''abc'')" by code_simp
  from decoder_stays_in_buffer [OF a b c, of None] a b d show ?thesis by simp
qed

text \<open>
  C7, as stated, fails: reads go past the reported length. With \<^verbatim>\<open>args_size = 8\<close> the two
  buffers agree on every byte below that length, and the decoded strings differ in the
  byte at offset 8, which \<^verbatim>\<open>%s\<close> copies because the argument at offset 6 has no NUL before.
\<close>

theorem decoder_reads_past_args_size:
  "take 8 stale_c = take 8 stale_d \<and>
   procargs2_cmdline stale_c 8 None = Inr (Some ''abc'') \<and>
   procargs2_cmdline stale_d 8 None = Inr (Some ''abd'')"
  by code_simp

section \<open>The probe\<close>

lemma pid_loop_flag: "isSipEnabled (pid_loop pids g) = (isSipEnabled g \<and> 1 \<notin> set pids)"
  by (induction pids arbitrary: g) auto

lemma probe_value:
  "fst (isSipEnabled_probe k g) =
     (host_processor_set_priv k \<noteq> KERN_SUCCESS \<or> processor_set_tasks k \<noteq> KERN_SUCCESS \<or>
      1 \<notin> set (tasks k))"
  by (simp add: isSipEnabled_probe_def Let_def pid_loop_flag)

lemma probe_stored: "isSipEnabled (snd (isSipEnabled_probe k g)) = fst (isSipEnabled_probe k g)"
  by (simp add: isSipEnabled_probe_def Let_def)

lemma init_flag:
  assumes "fst (init_process_info_sysdep a st)"
  shows "isSipEnabled (fst (snd (init_process_info_sysdep a st)))
           = fst (isSipEnabled_probe (sip_probe a) (fst st))"
  using assms
  by (cases st)
    (auto simp: init_process_info_sysdep_def Let_def probe_value split: option.splits)

text \<open>
  C6. \<^verbatim>\<open>_isSipEnabled\<close> returns true, restricted, whenever \<^verbatim>\<open>host_processor_set_priv\<close> or
  \<^verbatim>\<open>processor_set_tasks\<close> fails. When both succeed it returns false, unrestricted, exactly
  when some task of the array has pid 1. The value it returns is the value it leaves in
  \<^verbatim>\<open>isSipEnabled\<close>, and an initialisation that succeeds stores it there.
\<close>

theorem probe_finds_pid_1:
  "(host_processor_set_priv k \<noteq> KERN_SUCCESS \<or> processor_set_tasks k \<noteq> KERN_SUCCESS
      \<longrightarrow> fst (isSipEnabled_probe k g)) \<and>
   (host_processor_set_priv k = KERN_SUCCESS \<and> processor_set_tasks k = KERN_SUCCESS
      \<longrightarrow> (\<not> fst (isSipEnabled_probe k g)) = (1 \<in> set (tasks k))) \<and>
   isSipEnabled (snd (isSipEnabled_probe k g)) = fst (isSipEnabled_probe k g) \<and>
   (fst (init_process_info_sysdep a st)
      \<longrightarrow> isSipEnabled (fst (snd (init_process_info_sysdep a st)))
            = fst (isSipEnabled_probe (sip_probe a) (fst st)))"
  using init_flag [of a st] by (auto simp: probe_value probe_stored)

theorem probe_finds_pid_1_witness:
  "host_processor_set_priv (sip_probe nonroot_init) = 5 \<and> KERN_SUCCESS = 0 \<and>
   fst (isSipEnabled_probe (sip_probe nonroot_init) statics_at_start) \<and>
   host_processor_set_priv root_probe = KERN_SUCCESS \<and>
   processor_set_tasks root_probe = KERN_SUCCESS \<and> 1 \<in> set (tasks root_probe) \<and>
   \<not> fst (isSipEnabled_probe root_probe statics_at_start) \<and>
   fst (init_process_info_sysdep root_init (statics_at_start, systeminfo_at_start)) \<and>
   \<not> isSipEnabled (fst (snd (init_process_info_sysdep root_init
        (statics_at_start, systeminfo_at_start))))"
proof -
  have a: "host_processor_set_priv (sip_probe nonroot_init) = 5" "KERN_SUCCESS = 0"
    by (simp_all add: nonroot_init_def KERN_SUCCESS_def)
  have b: "host_processor_set_priv root_probe = KERN_SUCCESS"
    "processor_set_tasks root_probe = KERN_SUCCESS" "1 \<in> set (tasks root_probe)"
    by (simp_all add: root_probe_def KERN_SUCCESS_def)
  have c: "fst (init_process_info_sysdep root_init (statics_at_start, systeminfo_at_start))"
    by code_simp
  have d: "sip_probe root_init = root_probe"
    by (simp add: root_init_def)
  from probe_finds_pid_1 [of "sip_probe nonroot_init" statics_at_start root_init
      "(statics_at_start, systeminfo_at_start)"]
    probe_finds_pid_1 [of root_probe statics_at_start root_init
      "(statics_at_start, systeminfo_at_start)"] a b c d
  show ?thesis
    by simp
qed

section \<open>The memory sample\<close>

text \<open>
  C5, as amended. When the memory statistics succeed and the swap query fails,
  \<^verbatim>\<open>used_system_memory_sysdep\<close> returns false, \<^verbatim>\<open>total_mem_kbyte\<close> holds the value just
  computed from the page counts, \<^verbatim>\<open>swap_kbyte_max\<close> is zero, and every other field,
  \<^verbatim>\<open>total_swap_kbyte\<close> among them, is as it was.
\<close>

theorem swap_failure_zeroes_swap_kbyte_max:
  assumes "vm_kret k = KERN_SUCCESS" and "vm_swapusage k = None"
  shows "used_system_memory_sysdep k g si =
     (False, si\<lparr> total_mem_kbyte := ucast ((wire_count k + active_count k) * pagesize_kbyte g),
                 swap_kbyte_max := 0 \<rparr>)"
  using assms by (simp add: used_system_memory_sysdep_def)

lemma restricted_pagesize: "pagesize_kbyte restricted = 4"
  by code_simp

theorem swap_failure_zeroes_swap_kbyte_max_witness:
  "vm_kret swapless = KERN_SUCCESS \<and> vm_swapusage swapless = None \<and>
   used_system_memory_sysdep swapless restricted swapped =
     (False, swapped\<lparr> total_mem_kbyte := 12000, swap_kbyte_max := 0 \<rparr>)"
proof -
  have a: "vm_kret swapless = KERN_SUCCESS" and b: "vm_swapusage swapless = None"
    by (simp_all add: swapless_def KERN_SUCCESS_def)
  have c: "ucast ((wire_count swapless + active_count swapless) * pagesize_kbyte restricted)
      = (12000 :: 64 word)"
    by (simp add: swapless_def restricted_pagesize)
  from swap_failure_zeroes_swap_kbyte_max [OF a b, of restricted swapped] a b c
  show ?thesis by simp
qed

text \<open>
  C5, as stated, fails: only the swap total is zeroed. The swap in use, 77 before the
  call, is still 77 after it.
\<close>

theorem swap_failure_keeps_total_swap_kbyte:
  "vm_kret swapless = KERN_SUCCESS \<and> vm_swapusage swapless = None \<and>
   total_swap_kbyte swapped = 77 \<and>
   fst (used_system_memory_sysdep swapless restricted swapped) = False \<and>
   swap_kbyte_max (snd (used_system_memory_sysdep swapless restricted swapped)) = 0 \<and>
   total_swap_kbyte (snd (used_system_memory_sysdep swapless restricted swapped)) = 77"
  by (simp add: used_system_memory_sysdep_def swapless_def swapped_def KERN_SUCCESS_def)

section \<open>The CPU sample\<close>

text \<open>
  C4, as amended. A call of \<^verbatim>\<open>used_system_cpu_sysdep\<close> whose \<^verbatim>\<open>host_statistics\<close> succeeds
  returns true and leaves the new total in \<^verbatim>\<open>total_old\<close> and the new user and system ticks
  in \<^verbatim>\<open>cpu_user_old\<close> and \<^verbatim>\<open>cpu_syst_old\<close>, whether it reported percentages or the sentinel.
  A call whose \<^verbatim>\<open>host_statistics\<close> fails returns false and changes nothing.
\<close>

theorem accumulators_follow_successful_sample:
  "(cpu_kret k = KERN_SUCCESS \<longrightarrow>
      fst (used_system_cpu_sysdep k g si) \<and>
      total_old (fst (snd (used_system_cpu_sysdep k g si))) = sum_ticks (cpu_ticks k) \<and>
      cpu_user_old (fst (snd (used_system_cpu_sysdep k g si)))
        = ucast (cpu_ticks k CPU_STATE_USER) \<and>
      cpu_syst_old (fst (snd (used_system_cpu_sysdep k g si)))
        = ucast (cpu_ticks k CPU_STATE_SYSTEM)) \<and>
   (cpu_kret k \<noteq> KERN_SUCCESS \<longrightarrow> used_system_cpu_sysdep k g si = (False, g, si))"
  by (simp add: used_system_cpu_sysdep_def Let_def)

lemma busy_total: "sum_ticks busy_ticks = 1000"
  by code_simp

theorem accumulators_follow_successful_sample_witness:
  "cpu_kret first_sample = KERN_SUCCESS \<and>
   fst (used_system_cpu_sysdep first_sample statics_at_start systeminfo_at_start) \<and>
   total_old (fst (snd (used_system_cpu_sysdep first_sample statics_at_start
      systeminfo_at_start))) = 1000 \<and>
   cpu_user_old (fst (snd (used_system_cpu_sysdep first_sample statics_at_start
      systeminfo_at_start))) = 250 \<and>
   cpu_syst_old (fst (snd (used_system_cpu_sysdep first_sample statics_at_start
      systeminfo_at_start))) = 150 \<and>
   cpu_kret failed_sample \<noteq> KERN_SUCCESS \<and>
   used_system_cpu_sysdep failed_sample statics_at_start systeminfo_at_start
     = (False, statics_at_start, systeminfo_at_start)"
proof -
  have a: "cpu_kret first_sample = KERN_SUCCESS" "cpu_kret failed_sample \<noteq> KERN_SUCCESS"
    by (simp_all add: first_sample_def failed_sample_def KERN_SUCCESS_def)
  have b: "cpu_ticks first_sample = busy_ticks"
    by (simp add: first_sample_def)
  have c: "ucast (busy_ticks CPU_STATE_USER) = (250 :: 64 word)"
    "ucast (busy_ticks CPU_STATE_SYSTEM) = (150 :: 64 word)"
    by (simp_all add: busy_ticks_def CPU_STATE_USER_def CPU_STATE_SYSTEM_def)
  from accumulators_follow_successful_sample
      [of first_sample statics_at_start systeminfo_at_start]
    accumulators_follow_successful_sample
      [of failed_sample statics_at_start systeminfo_at_start] a b c busy_total
  show ?thesis by simp
qed

text \<open>
  C4, as stated, fails for a failing call: the counters in \<^verbatim>\<open>cpu_info\<close> sum to 1000, and
  \<^verbatim>\<open>total_old\<close> is 0 before and after.
\<close>

theorem failed_sample_keeps_accumulators:
  "cpu_kret failed_sample \<noteq> KERN_SUCCESS \<and>
   sum_ticks (cpu_ticks failed_sample) = 1000 \<and>
   total_old statics_at_start = 0 \<and>
   total_old (fst (snd (used_system_cpu_sysdep failed_sample statics_at_start
      systeminfo_at_start))) = 0"
  by (simp add: used_system_cpu_sysdep_def failed_sample_def KERN_SUCCESS_def busy_total
      statics_at_start_def)

lemma upt_4: "[0..<4] = [0, 1, 2, 3]"
  by (simp add: upt_rec)

lemma sint_long_small:
  "0 \<le> i \<Longrightarrow> i < 9223372036854775808 \<Longrightarrow> sint (word_of_int i :: 64 word) = i"
  by (simp add: sint_sbintrunc' signed_take_bit_int_eq_self)

lemma natural_bound: "uint (w :: 32 word) < 4294967296"
  using uint_lt2p [of w] by simp

lemma long_of_natural: "sint (ucast (w :: 32 word) :: 64 word) = uint w"
proof -
  have "(ucast w :: 64 word) = word_of_int (uint w)"
    by simp
  moreover have "uint w < 9223372036854775808"
    using natural_bound [of w] by linarith
  then have "sint (word_of_int (uint w) :: 64 word) = uint w"
    by (intro sint_long_small) simp_all
  ultimately show ?thesis by simp
qed

lemma sint_sum_ticks: "sint (sum_ticks ticks) = ticks_since_boot ticks"
proof -
  let ?T = "uint (ticks 0) + uint (ticks 1) + uint (ticks 2) + uint (ticks 3)"
  have "sum_ticks ticks = word_of_int ?T"
    by (simp add: sum_ticks_def CPU_STATE_MAX_def upt_4)
  moreover have "0 \<le> ?T"
    by simp
  moreover have "?T < 9223372036854775808"
    using natural_bound [of "ticks 0"] natural_bound [of "ticks 1"]
      natural_bound [of "ticks 2"] natural_bound [of "ticks 3"]
    by linarith
  ultimately have "sint (sum_ticks ticks) = ?T"
    by (simp only: sint_long_small)
  then show ?thesis
    by (simp add: ticks_since_boot_def CPU_STATE_MAX_def upt_4)
qed

lemma state_le_total:
  "i < CPU_STATE_MAX \<Longrightarrow> uint (ticks i) \<le> ticks_since_boot ticks"
  using uint_ge_0 [of "ticks 0"] uint_ge_0 [of "ticks 1"]
    uint_ge_0 [of "ticks 2"] uint_ge_0 [of "ticks 3"]
  by (auto simp: ticks_since_boot_def CPU_STATE_MAX_def upt_4 less_Suc_eq numeral_eq_Suc
      simp del: uint_ge_0)

lemma permille_share:
  assumes "0 \<le> d" and "d \<le> t" and "0 < t"
  shows "permille d t = (1000 * d) div t \<and> 0 \<le> permille d t \<and> permille d t \<le> 1000"
proof -
  have lo: "0 \<le> (1000 * d) div t"
    using assms by (simp add: pos_imp_zdiv_nonneg_iff)
  have "(1000 * d) div t \<le> (1000 * t) div t"
    using assms by (intro zdiv_mono1) auto
  then have hi: "(1000 * d) div t \<le> 1000"
    using assms(3) by simp
  from lo hi have "int_of_double ((1000 * d) div t) = (1000 * d) div t"
    by (simp add: int_of_double_def)
  then have eq: "permille d t = (1000 * d) div t"
    using assms(1) by (simp add: permille_def)
  from lo hi show ?thesis
    using eq by simp
qed

text \<open>
  C2, as amended. On the first call, with the three accumulators still 0, and
  \<^verbatim>\<open>host_statistics\<close> succeeding, each of the two percentages is the sentinel -10 only when
  all tick counters are zero. Otherwise it is the share of the state in all ticks since
  boot, 1000 times the state's ticks divided by the total, a value from 0 to 1000 and so
  never the sentinel.
\<close>

theorem first_sample_percentages:
  assumes "total_old g = 0" and "cpu_user_old g = 0" and "cpu_syst_old g = 0"
    and "cpu_kret k = KERN_SUCCESS"
  shows "total_cpu_user_percent (snd (snd (used_system_cpu_sysdep k g si))) =
           (if 0 < ticks_since_boot (cpu_ticks k)
            then (1000 * uint (cpu_ticks k CPU_STATE_USER)) div ticks_since_boot (cpu_ticks k)
            else SENTINEL) \<and>
         total_cpu_syst_percent (snd (snd (used_system_cpu_sysdep k g si))) =
           (if 0 < ticks_since_boot (cpu_ticks k)
            then (1000 * uint (cpu_ticks k CPU_STATE_SYSTEM)) div ticks_since_boot (cpu_ticks k)
            else SENTINEL) \<and>
         (0 < ticks_since_boot (cpu_ticks k) \<longrightarrow>
            0 \<le> total_cpu_user_percent (snd (snd (used_system_cpu_sysdep k g si))) \<and>
            total_cpu_user_percent (snd (snd (used_system_cpu_sysdep k g si))) \<le> 1000 \<and>
            0 \<le> total_cpu_syst_percent (snd (snd (used_system_cpu_sysdep k g si))) \<and>
            total_cpu_syst_percent (snd (snd (used_system_cpu_sysdep k g si))) \<le> 1000)"
proof -
  let ?T = "ticks_since_boot (cpu_ticks k)"
  let ?u = "uint (cpu_ticks k CPU_STATE_USER)"
  let ?s = "uint (cpu_ticks k CPU_STATE_SYSTEM)"
  have user: "total_cpu_user_percent (snd (snd (used_system_cpu_sysdep k g si))) =
      (if 0 < ?T then permille ?u ?T else SENTINEL)"
    using assms by (simp add: used_system_cpu_sysdep_def Let_def sint_sum_ticks long_of_natural)
  have syst: "total_cpu_syst_percent (snd (snd (used_system_cpu_sysdep k g si))) =
      (if 0 < ?T then permille ?s ?T else SENTINEL)"
    using assms by (simp add: used_system_cpu_sysdep_def Let_def sint_sum_ticks long_of_natural)
  have u: "0 \<le> ?u" "?u \<le> ?T" and s: "0 \<le> ?s" "?s \<le> ?T"
    by (simp_all add: state_le_total CPU_STATE_USER_def CPU_STATE_SYSTEM_def CPU_STATE_MAX_def)
  show ?thesis
  proof (cases "0 < ?T")
    case True
    from permille_share [OF u True] permille_share [OF s True] user syst True
    show ?thesis by simp
  next
    case False
    with user syst show ?thesis by simp
  qed
qed

lemma busy_since_boot: "ticks_since_boot busy_ticks = 1000"
  by (simp add: ticks_since_boot_def CPU_STATE_MAX_def upt_4 busy_ticks_def)

theorem first_sample_percentages_witness:
  "total_old statics_at_start = 0 \<and> cpu_user_old statics_at_start = 0 \<and>
   cpu_syst_old statics_at_start = 0 \<and> cpu_kret first_sample = KERN_SUCCESS \<and>
   ticks_since_boot (cpu_ticks first_sample) = 1000 \<and>
   total_cpu_user_percent (snd (snd (used_system_cpu_sysdep first_sample statics_at_start
     systeminfo_at_start))) = 250 \<and>
   total_cpu_syst_percent (snd (snd (used_system_cpu_sysdep first_sample statics_at_start
     systeminfo_at_start))) = 150"
proof -
  have a: "total_old statics_at_start = 0" "cpu_user_old statics_at_start = 0"
    "cpu_syst_old statics_at_start = 0"
    by (simp_all add: statics_at_start_def)
  have b: "cpu_kret first_sample = KERN_SUCCESS"
    by (simp add: first_sample_def KERN_SUCCESS_def)
  have c: "cpu_ticks first_sample = busy_ticks"
    by (simp add: first_sample_def)
  have d: "uint (busy_ticks CPU_STATE_USER) = 250" "uint (busy_ticks CPU_STATE_SYSTEM) = 150"
    by (simp_all add: busy_ticks_def CPU_STATE_USER_def CPU_STATE_SYSTEM_def)
  from first_sample_percentages [OF a b, of systeminfo_at_start] a b c d busy_since_boot
  show ?thesis by simp
qed

text \<open>
  C2, as stated, fails: the first call on a host with 250 user and 150 system ticks out
  of 1000 reports 250 and 150, not the sentinel.
\<close>

theorem first_sample_is_not_sentinel:
  "total_old statics_at_start = 0 \<and> SENTINEL = - 10 \<and>
   used_system_cpu_sysdep first_sample statics_at_start systeminfo_at_start =
     (True,
      statics_at_start\<lparr> total_old := 1000, cpu_user_old := 250, cpu_syst_old := 150 \<rparr>,
      systeminfo_at_start\<lparr> total_cpu_user_percent := 250, total_cpu_syst_percent := 150,
        total_cpu_wait_percent := 0 \<rparr>)"
  by code_simp

section \<open>A snapshot stays inside the buffer\<close>

text \<open>
  Every \<^verbatim>\<open>sysctl\<close> call leaves the buffer as allocated, so with \<^verbatim>\<open>KERN_ARGMAX\<close> of at least
  \<^verbatim>\<open>sizeof(int)\<close> no iteration of the loop reads outside the allocation, and
  \<^verbatim>\<open>initprocesstree_sysdep\<close> returns.
\<close>

lemma sysctl_procargs2_allocated:
  assumes "allocated argmax args" and "sysctl_procargs2 answer argmax args = Some (args', n)"
  shows "allocated argmax args' \<and> n \<le> argmax"
  using assms
  by (auto simp: sysctl_procargs2_def allocated_def nth_append split: option.splits if_splits)

lemma tree_entry_allocated:
  assumes "allocated argmax args" and "sizeof_int \<le> argmax"
  shows "\<exists>pt. tree_entry sip argmax args a = Inr (args_after argmax args a, pt) \<and>
           allocated argmax (args_after argmax args a)"
proof (cases "sysctl_procargs2 (procargs2 a) argmax args")
  case None
  with assms(1) show ?thesis
    by (simp add: tree_entry_def args_after_def Let_def)
next
  case (Some r)
  obtain args' n where r: "r = (args', n)"
    by (cases r)
  from sysctl_procargs2_allocated [OF assms(1) Some [unfolded r]]
  have a: "allocated argmax args'" and n: "n \<le> argmax"
    by simp_all
  from procargs2_cmdline_allocated [OF a assms(2) n] obtain c where
    "procargs2_cmdline args' n (cmdline (calloc_entry\<lparr> pid := p_pid (pinfo a),
       ppid := e_ppid (pinfo a), uid := p_ruid (pinfo a), euid := cr_uid (pinfo a),
       gid := p_rgid (pinfo a), starttime := p_starttime (pinfo a) \<rparr>)) = Inr c"
    by blast
  with Some r a show ?thesis
    by (simp add: tree_entry_def args_after_def Let_def)
qed

lemma tree_loop_allocated:
  assumes "allocated argmax args" and "sizeof_int \<le> argmax"
  shows "\<exists>pts. tree_loop sip argmax args pinfos = Inr pts"
  using assms(1)
proof (induction pinfos arbitrary: args)
  case Nil
  show ?case by simp
next
  case (Cons a pinfos)
  from tree_entry_allocated [OF Cons.prems assms(2)] obtain pt where
    e: "tree_entry sip argmax args a = Inr (args_after argmax args a, pt)"
    and al: "allocated argmax (args_after argmax args a)"
    by blast
  from Cons.IH [OF al] obtain pts where
    "tree_loop sip argmax (args_after argmax args a) pinfos = Inr pts"
    by blast
  with e show ?case by simp
qed

lemma snapshot_never_faults:
  assumes "\<forall>argmax. kern_argmax k = Some argmax \<longrightarrow> sizeof_int \<le> argmax"
  shows "\<exists>r. initprocesstree_sysdep g k = Inr r"
proof (cases "kern_argmax k")
  case None
  then show ?thesis
    by (simp add: initprocesstree_sysdep_def split: option.splits)
next
  case (Some argmax)
  with assms have "sizeof_int \<le> argmax" by simp
  moreover have "replicate (argmax + 1) NUL ! argmax = NUL"
    by (rule nth_replicate) simp
  then have "allocated argmax (replicate (argmax + 1) NUL)"
    unfolding allocated_def by simp
  ultimately have loop: "\<exists>pts. tree_loop (isSipEnabled g) argmax
      (replicate (argmax + 1) NUL) pinfos = Inr pts" for pinfos
    by (intro tree_loop_allocated)
  show ?thesis
  proof (cases "kern_proc_all k")
    case None
    then show ?thesis
      by (simp add: initprocesstree_sysdep_def)
  next
    case (Some pinfos)
    from loop [of pinfos] obtain pts where
      "tree_loop (isSipEnabled g) argmax (replicate (argmax + 1) NUL) pinfos = Inr pts"
      by blast
    with Some \<open>kern_argmax k = Some argmax\<close> show ?thesis
      by (simp add: initprocesstree_sysdep_def del: replicate.simps)
  qed
qed

section \<open>The command line of an entry\<close>

text \<open>
  When the process table and \<^verbatim>\<open>KERN_ARGMAX\<close> can be read, and \<^verbatim>\<open>KERN_ARGMAX\<close> is at least
  \<^verbatim>\<open>sizeof(int)\<close>, the snapshot is produced, with one entry for each process of the table.
\<close>

lemma snapshot_produced:
  assumes "kern_proc_all_size k" and "kern_proc_all k = Some pinfos"
    and "kern_argmax k = Some argmax" and "sizeof_int \<le> argmax"
  shows "\<exists>pt. initprocesstree_sysdep g k = Inr (int (length pinfos), Some pt)"
proof -
  have "replicate (argmax + 1) NUL ! argmax = NUL"
    by (rule nth_replicate) simp
  then have "allocated argmax (replicate (argmax + 1) NUL)"
    unfolding allocated_def by simp
  from tree_loop_allocated [OF this assms(4)] obtain pts where
    "tree_loop (isSipEnabled g) argmax (replicate (argmax + 1) NUL) pinfos = Inr pts"
    by blast
  with assms(1,2,3) show ?thesis
    by (simp add: initprocesstree_sysdep_def del: replicate.simps)
qed

lemma snapshot_cmdline:
  assumes "initprocesstree_sysdep g k = Inr (n, Some pt)" and "kern_proc_all k = Some pinfos"
    and "kern_argmax k = Some argmax" and "i < length pinfos"
  shows "cmdline (pt ! i) =
           (if decoded_cmdline argmax (snapshot_args argmax pinfos i) (pinfos ! i) = None \<or>
               decoded_cmdline argmax (snapshot_args argmax pinfos i) (pinfos ! i) = Some []
            then Some (p_comm (pinfo (pinfos ! i)))
            else decoded_cmdline argmax (snapshot_args argmax pinfos i) (pinfos ! i))"
proof -
  let ?d = "decoded_cmdline argmax (snapshot_args argmax pinfos i) (pinfos ! i)"
  from snapshot_entries(2) [OF assms(1,2,4)] assms(3) obtain mem' where
    "tree_entry (isSipEnabled g) argmax (snapshot_args argmax pinfos i) (pinfos ! i)
       = Inr (mem', pt ! i)"
    by auto
  from tree_entry_shape [OF this] obtain base where
    pt: "pt ! i = task_block (task_for_pid_318 (pinfos ! i))
           (if \<not> isSipEnabled g then task_block (task_for_pid_287 (pinfos ! i)) base else base)"
    and c: "cmdline base =
      (if ?d = None \<or> ?d = Some [] then Some (p_comm (pinfo (pinfos ! i))) else ?d)"
    by blast
  from pt have "cmdline (pt ! i) = cmdline base"
    by (simp add: task_block_cmdline)
  with c show ?thesis
    by simp
qed

text \<open>
  C9. A snapshot is produced, and in it the entry of every process has a command line. It
  is the process's short name \<^verbatim>\<open>p_comm\<close> from the process table when the arguments query
  fails, and likewise when decoding leaves nothing or an empty string; otherwise it is the
  decoded string. With a short name that is not empty the command line is not empty
  either.
\<close>

theorem cmdline_falls_back_to_p_comm:
  assumes "kern_proc_all_size k" and "kern_proc_all k = Some pinfos"
    and "kern_argmax k = Some argmax" and "sizeof_int \<le> argmax" and "i < length pinfos"
  shows "\<exists>pt. initprocesstree_sysdep g k = Inr (int (length pinfos), Some pt) \<and>
           length pt = length pinfos \<and>
           (procargs2 (pinfos ! i) = None \<longrightarrow>
              cmdline (pt ! i) = Some (p_comm (pinfo (pinfos ! i)))) \<and>
           cmdline (pt ! i) =
             (if decoded_cmdline argmax (snapshot_args argmax pinfos i) (pinfos ! i) = None \<or>
                 decoded_cmdline argmax (snapshot_args argmax pinfos i) (pinfos ! i) = Some []
              then Some (p_comm (pinfo (pinfos ! i)))
              else decoded_cmdline argmax (snapshot_args argmax pinfos i) (pinfos ! i)) \<and>
           cmdline (pt ! i) \<noteq> None \<and>
           (p_comm (pinfo (pinfos ! i)) \<noteq> [] \<longrightarrow> cmdline (pt ! i) \<noteq> Some [])"
proof -
  let ?d = "decoded_cmdline argmax (snapshot_args argmax pinfos i) (pinfos ! i)"
  from snapshot_produced [OF assms(1,2,3,4)] obtain pt where
    run: "initprocesstree_sysdep g k = Inr (int (length pinfos), Some pt)"
    by blast
  from snapshot_entries(1) [OF run assms(2,5)] have len: "length pt = length pinfos" .
  from snapshot_cmdline [OF run assms(2,3,5)] have eq: "cmdline (pt ! i) =
      (if ?d = None \<or> ?d = Some [] then Some (p_comm (pinfo (pinfos ! i))) else ?d)" .
  have failed: "procargs2 (pinfos ! i) = None \<longrightarrow>
      cmdline (pt ! i) = Some (p_comm (pinfo (pinfos ! i)))"
    unfolding eq by (simp add: decoded_cmdline_def sysctl_procargs2_def)
  have not_null: "cmdline (pt ! i) \<noteq> None"
    unfolding eq by auto
  have not_empty: "p_comm (pinfo (pinfos ! i)) \<noteq> [] \<longrightarrow> cmdline (pt ! i) \<noteq> Some []"
    unfolding eq by auto
  from run len failed eq not_null not_empty show ?thesis
    by (intro exI [where x = pt] conjI)
qed

theorem cmdline_falls_back_to_p_comm_witness:
  "kern_proc_all_size ps_system \<and> kern_proc_all ps_system = Some ps_procs \<and>
   kern_argmax ps_system = Some 64 \<and> sizeof_int \<le> 64 \<and> length ps_procs = 4 \<and>
   initprocesstree_sysdep sip_off ps_system = Inr (4, Some ps_tree) \<and>
   procargs2 (ps_procs ! 1) = None \<and>
   decoded_cmdline 64 (snapshot_args 64 ps_procs 2) (ps_procs ! 2) = Some [] \<and>
   decoded_cmdline 64 (snapshot_args 64 ps_procs 3) (ps_procs ! 3) = None \<and>
   p_comm (pinfo (ps_procs ! 1)) = ''ls'' \<and> p_comm (pinfo (ps_procs ! 2)) = ''ls'' \<and>
   p_comm (pinfo (ps_procs ! 3)) = ''ls'' \<and>
   map cmdline ps_tree = [Some ''-l --color'', Some ''ls'', Some ''ls'', Some ''ls'']"
proof -
  have s: "kern_proc_all_size ps_system" and k: "kern_proc_all ps_system = Some ps_procs"
    and m: "kern_argmax ps_system = Some 64"
    by (simp_all add: ps_system_def)
  have z: "sizeof_int \<le> 64"
    by (simp add: sizeof_int_def)
  have len: "length ps_procs = 4"
    by (simp add: ps_procs_def)
  have i1: "1 < length ps_procs" and i2: "2 < length ps_procs" and i3: "3 < length ps_procs"
    by (simp_all add: len)
  have q: "procargs2 (ps_procs ! 1) = None"
    by (simp add: ps_procs_def)
  have c: "p_comm (pinfo (ps_procs ! 1)) = ''ls''" "p_comm (pinfo (ps_procs ! 2)) = ''ls''"
    "p_comm (pinfo (ps_procs ! 3)) = ''ls''"
    by (simp_all add: ps_procs_def ls_proc_def)
  have t: "pt = ps_tree"
    if "initprocesstree_sysdep sip_off ps_system = Inr (int (length ps_procs), Some pt)" for pt
    using that by (simp add: ps_snapshot)
  from cmdline_falls_back_to_p_comm [OF s k m z i1, of sip_off]
  have e1: "cmdline (ps_tree ! 1) = Some ''ls''"
    using t q c by auto
  from cmdline_falls_back_to_p_comm [OF s k m z i2, of sip_off]
  have e2: "cmdline (ps_tree ! 2) = Some ''ls''"
    using t c by (auto simp: ps_decoded)
  from cmdline_falls_back_to_p_comm [OF s k m z i3, of sip_off]
  have e3: "cmdline (ps_tree ! 3) = Some ''ls''"
    using t c by (auto simp: ps_decoded)
  have "map cmdline ps_tree = [Some ''-l --color'', Some ''ls'', Some ''ls'', Some ''ls'']"
    using e1 e2 e3 by (simp add: ps_tree_def ls_entry_def)
  with s k m z len q c show ?thesis
    by (simp add: ps_snapshot ps_decoded)
qed

end
